theory Spec2Isabelle
  imports Main
begin

section \<open>Image providers\<close>

subsection \<open>URL joining\<close>

text \<open>
  Modelled from the spec: \<^verbatim>\<open>joinURL\<close>, which both providers import from the
  package \<^verbatim>\<open>ufo\<close>, is missing: the package is a dependency and its code is
  not part of the repository. The spec gives its rule as "standard URL path
  concatenation (no duplicate separators, override takes precedence entirely -- no
  merging of path segments from both)". The model follows the package's behaviour for
  that rule: segments that are empty or just
  \<^verbatim>\<open>/\<close> are skipped; an empty base yields the segment as it is; otherwise
  the base gets a trailing slash when it has none, the segment loses one leading
  \<^verbatim>\<open>/\<close> or \<^verbatim>\<open>./\<close>, and the two are concatenated.
\<close>

definition isNonEmptyURL :: "string \<Rightarrow> bool" where
  "isNonEmptyURL u \<longleftrightarrow> u \<noteq> [] \<and> u \<noteq> ''/''"

definition withTrailingSlash :: "string \<Rightarrow> string" where
  "withTrailingSlash input =
     (if input \<noteq> [] \<and> last input = CHR ''/'' then input else input @ ''/'')"

fun withoutJoinLeadingSlash :: "string \<Rightarrow> string" where
  "withoutJoinLeadingSlash (a # b # cs) =
     (if a = CHR ''.'' \<and> b = CHR ''/'' then cs
      else if a = CHR ''/'' then b # cs
      else a # b # cs)"
| "withoutJoinLeadingSlash [a] = (if a = CHR ''/'' then [] else [a])"
| "withoutJoinLeadingSlash [] = []"

definition joinSegment :: "string \<Rightarrow> string \<Rightarrow> string" where
  "joinSegment url segment =
     (if url \<noteq> [] then withTrailingSlash url @ withoutJoinLeadingSlash segment
      else segment)"

definition joinURL :: "string \<Rightarrow> string list \<Rightarrow> string" where
  "joinURL base input = foldl joinSegment base (filter isNonEmptyURL input)"

subsection \<open>The two providers\<close>

text \<open>
  The options record a provider receives. Only the two fields the providers read are
  kept: \<^verbatim>\<open>modifiers\<close> (destructured and unused by the \<^verbatim>\<open>defineProvider\<close>
  variant) and \<^verbatim>\<open>baseURL\<close> (read by the exported \<^verbatim>\<open>getImage\<close>), which is
  \<open>None\<close> when the caller leaves it out.
\<close>

record image_options =
  modifiers :: "(string \<times> string) list"
  baseURL :: "string option"

record resolved_image =
  format :: string
  url :: string

definition DEFAULT_BASE_URL :: string where
  "DEFAULT_BASE_URL = ''https://avatars.githubusercontent.com/u/''"

text \<open>
  The provider declared with \<^verbatim>\<open>defineProvider\<close>: its \<^verbatim>\<open>getImage\<close> takes
  only \<^verbatim>\<open>modifiers\<close> out of the options and joins the constant base with the
  source.
\<close>

definition provider_getImage :: "string \<Rightarrow> image_options \<Rightarrow> resolved_image" where
  "provider_getImage src options =
     (let unused_modifiers = modifiers options
      in \<lparr>format = ''webp'', url = joinURL DEFAULT_BASE_URL [src]\<rparr>)"

text \<open>
  The exported \<^verbatim>\<open>getImage\<close>: \<^verbatim>\<open>if (!baseURL)\<close> holds for an absent option
  and for the empty string, the two falsy values a text option can take, and then
  assigns the default. \<^verbatim>\<open>joinURL\<close> reads an absent base as the empty text; after
  the assignment the base is never absent.
\<close>

definition falsy :: "string option \<Rightarrow> bool" where
  "falsy v = (case v of None \<Rightarrow> True | Some s \<Rightarrow> s = [])"

definition getImage :: "string \<Rightarrow> image_options \<Rightarrow> resolved_image" where
  "getImage src options =
     (let baseURL0 = baseURL options;
          baseURL1 = (if falsy baseURL0 then Some ''https://avatars.githubusercontent.com/u/''
                      else baseURL0)
      in \<lparr>format = ''webp'', url = joinURL (case baseURL1 of Some b \<Rightarrow> b | None \<Rightarrow> []) [src]\<rparr>)"

text \<open>
  How many pairs of adjacent separators a text holds. It measures what a join adds:
  \<^verbatim>\<open>https://\<close> already holds one pair.
\<close>

fun dupSeparators :: "string \<Rightarrow> nat" where
  "dupSeparators (a # b # cs) =
     (if a = CHR ''/'' \<and> b = CHR ''/'' then 1 else 0) + dupSeparators (b # cs)"
| "dupSeparators [a] = 0"
| "dupSeparators [] = 0"

section \<open>Error registry\<close>

text \<open>
  Modelled from the spec: \<^verbatim>\<open>createError\<close> (the server runtime's, package
  \<^verbatim>\<open>h3\<close>) is missing. \<^verbatim>\<open>src/server/errors/index.ts\<close> exports seven
  constants, each the result of one call of it on a literal status code and status
  message. The spec describes a named HTTP error as the pair of
  \<^verbatim>\<open>statusCode\<close> (an integer, one of the standard HTTP status codes) and
  \<^verbatim>\<open>statusMessage\<close> (short text), built by one library call that pairs "a
  fixed status code with a fixed message". The model follows the package for the two
  fields: a status code that is zero or outside 100..999 falls back to 500, and an empty
  status message leaves the field unset.
\<close>

record h3_error =
  statusCode :: int
  statusMessage :: "string option"

definition sanitizeStatusCode :: "int \<Rightarrow> int \<Rightarrow> int" where
  "sanitizeStatusCode code defaultStatusCode =
     (if code = 0 then defaultStatusCode
      else if code < 100 \<or> 999 < code then defaultStatusCode
      else code)"

text \<open>
  The two arguments are the fields \<^verbatim>\<open>statusCode\<close> and \<^verbatim>\<open>statusMessage\<close> of the
  object literal that the call receives.
\<close>

definition createError :: "int \<Rightarrow> string \<Rightarrow> h3_error" where
  "createError code msg =
     \<lparr>statusCode = (if code \<noteq> 0 then sanitizeStatusCode code 500 else 500),
      statusMessage = (if msg \<noteq> [] then Some msg else None)\<rparr>"

definition ErrNotFound :: h3_error where
  "ErrNotFound = createError 404 ''Not found''"

definition ErrForbidden :: h3_error where
  "ErrForbidden = createError 403 ''Forbidden''"

definition ErrUnauthorized :: h3_error where
  "ErrUnauthorized = createError 401 ''Unauthorized''"

definition ErrBadRequest :: h3_error where
  "ErrBadRequest = createError 400 ''Bad request''"

definition ErrUnsupportedMethod :: h3_error where
  "ErrUnsupportedMethod = createError 405 ''Unsupported method''"

definition ErrInternalServer :: h3_error where
  "ErrInternalServer = createError 500 ''Internal server error''"

definition ErrNoParamId :: h3_error where
  "ErrNoParamId = createError 400 ''No param id''"

text \<open>The module's exports, by name, in the order of the file.\<close>

definition exported_errors :: "(string \<times> h3_error) list" where
  "exported_errors =
     [(''ErrNotFound'', ErrNotFound),
      (''ErrForbidden'', ErrForbidden),
      (''ErrUnauthorized'', ErrUnauthorized),
      (''ErrBadRequest'', ErrBadRequest),
      (''ErrUnsupportedMethod'', ErrUnsupportedMethod),
      (''ErrInternalServer'', ErrInternalServer),
      (''ErrNoParamId'', ErrNoParamId)]"

section \<open>Content collection schema\<close>

subsection \<open>Raw documents\<close>

text \<open>
  A raw document is the key/value record parsed from a content file. Its values are
  JavaScript values: the JSON ones, and \<^verbatim>\<open>undefined\<close>, which is also what
  reading a key the record does not have gives. The schema never looks inside a number,
  so numbers are kept as integers.
\<close>

datatype jsvalue =
    JUndefined
  | JNull
  | JBool bool
  | JNumber int
  | JString string
  | JArray "jsvalue list"
  | JObject "(string \<times> jsvalue) list"

definition hasKey :: "(string \<times> jsvalue) list \<Rightarrow> string \<Rightarrow> bool" where
  "hasKey kvs k \<longleftrightarrow> k \<in> set (map fst kvs)"

definition getKey :: "(string \<times> jsvalue) list \<Rightarrow> string \<Rightarrow> jsvalue" where
  "getKey kvs k = (case map_of kvs k of None \<Rightarrow> JUndefined | Some v \<Rightarrow> v)"

subsection \<open>Schema combinators\<close>

text \<open>
  Modelled from the spec: the schema library behind \<^verbatim>\<open>z\<close> is missing.
  \<^verbatim>\<open>content.config.ts\<close> writes the schema with the combinators \<^verbatim>\<open>z.object\<close>,
  \<^verbatim>\<open>z.string\<close>, \<^verbatim>\<open>z.array\<close> and \<^verbatim>\<open>.optional()\<close> that the content
  module re-exports from that library. The spec gives the validator's contract:
  "validate that title is present and is text; validate that description, image are text if present; validate that tags, if present, is a
  sequence of text values", with, on success, "a normalized document record" and, on
  failure, "a SchemaValidationError naming the offending field". The model follows the
  library for that contract: a value of the wrong type is one issue holding the expected
  type, the received type and the path of the value; an optional schema accepts
  \<^verbatim>\<open>undefined\<close>; an array checks every element under its index; an object reads
  each key of its shape in the shape's order, collects the issues of all of them, and
  on success returns the shape's keys only, leaving out a key whose value is
  \<^verbatim>\<open>undefined\<close> and that the input does not have.
\<close>

datatype ztype =
    ZString
  | ZArray ztype
  | ZOptional ztype
  | ZObject "(string \<times> ztype) list"

datatype zparsed =
  ZT_undefined | ZT_null | ZT_boolean | ZT_number | ZT_string | ZT_array | ZT_object

fun getParsedType :: "jsvalue \<Rightarrow> zparsed" where
  "getParsedType JUndefined = ZT_undefined"
| "getParsedType JNull = ZT_null"
| "getParsedType (JBool _) = ZT_boolean"
| "getParsedType (JNumber _) = ZT_number"
| "getParsedType (JString _) = ZT_string"
| "getParsedType (JArray _) = ZT_array"
| "getParsedType (JObject _) = ZT_object"

datatype zseg = Key string | Idx nat

datatype zissue = InvalidType (expected: zparsed) (received: zparsed) (path: "zseg list")

text \<open>Several results become one: all the values, or all the issues in order.\<close>

fun mergeResults :: "(zissue list + 'a) list \<Rightarrow> zissue list + 'a list" where
  "mergeResults [] = Inr []"
| "mergeResults (r # rs) =
     (case (r, mergeResults rs) of
        (Inr v, Inr vs) \<Rightarrow> Inr (v # vs)
      | (Inr v, Inl es) \<Rightarrow> Inl es
      | (Inl e, Inr vs) \<Rightarrow> Inl e
      | (Inl e, Inl es) \<Rightarrow> Inl (e @ es))"

fun parse :: "ztype \<Rightarrow> zseg list \<Rightarrow> jsvalue \<Rightarrow> zissue list + jsvalue" where
  "parse ZString p v =
     (case v of
        JString s \<Rightarrow> Inr (JString s)
      | _ \<Rightarrow> Inl [InvalidType ZT_string (getParsedType v) p])"
| "parse (ZOptional t) p v =
     (if v = JUndefined then Inr JUndefined else parse t p v)"
| "parse (ZArray t) p v =
     (case v of
        JArray xs \<Rightarrow>
          (case mergeResults
                  (map (\<lambda>ix. parse t (p @ [Idx (fst ix)]) (snd ix)) (enumerate 0 xs)) of
             Inl es \<Rightarrow> Inl es
           | Inr ys \<Rightarrow> Inr (JArray ys))
      | _ \<Rightarrow> Inl [InvalidType ZT_array (getParsedType v) p])"
| "parse (ZObject shape) p v =
     (case v of
        JObject kvs \<Rightarrow>
          (case mergeResults
                  (map (\<lambda>kt. parse (snd kt) (p @ [Key (fst kt)]) (getKey kvs (fst kt))) shape) of
             Inl es \<Rightarrow> Inl es
           | Inr vs \<Rightarrow>
               Inr (JObject
                 (filter (\<lambda>kv. snd kv \<noteq> JUndefined \<or> hasKey kvs (fst kv))
                    (zip (map fst shape) vs))))
      | _ \<Rightarrow> Inl [InvalidType ZT_object (getParsedType v) p])"

definition safeParse :: "ztype \<Rightarrow> jsvalue \<Rightarrow> zissue list + jsvalue" where
  "safeParse t v = parse t [] v"

fun shapeKeys :: "ztype \<Rightarrow> string list" where
  "shapeKeys (ZObject shape) = map fst shape"
| "shapeKeys _ = []"

subsection \<open>The schema of the content collection\<close>

definition content_schema :: ztype where
  "content_schema = ZObject
     [(''description'', ZOptional ZString),
      (''image'', ZOptional ZString),
      (''tags'', ZOptional (ZArray ZString)),
      (''title'', ZString)]"

text \<open>
  Validating a raw document: \<open>Inl\<close> is the validation error with its issues,
  \<open>Inr\<close> the normalized document.
\<close>

definition validate :: "(string \<times> jsvalue) list \<Rightarrow> zissue list + jsvalue" where
  "validate doc = safeParse content_schema (JObject doc)"

section \<open>Lemmas\<close>

subsection \<open>Separators across a join\<close>

lemma dupSeparators_append:
  "dupSeparators (xs @ ys) =
     dupSeparators xs + dupSeparators ys +
     (if xs \<noteq> [] \<and> ys \<noteq> [] \<and> last xs = CHR ''/'' \<and> hd ys = CHR ''/'' then 1 else 0)"
proof (induction xs rule: dupSeparators.induct)
  case (1 a b cs)
  then show ?case by simp
next
  case (2 a)
  then show ?case by (cases ys) simp_all
next
  case 3
  then show ?case by simp
qed

lemma dupSeparators_Cons:
  "dupSeparators (c # cs) =
     dupSeparators cs + (if c = CHR ''/'' \<and> cs \<noteq> [] \<and> hd cs = CHR ''/'' then 1 else 0)"
  by (cases cs) simp_all

lemma dupSeparators_withTrailingSlash:
  "dupSeparators (withTrailingSlash u) = dupSeparators u"
  by (simp add: withTrailingSlash_def dupSeparators_append)

lemma last_withTrailingSlash: "last (withTrailingSlash u) = CHR ''/''"
  by (simp add: withTrailingSlash_def)

lemma withTrailingSlash_nonempty: "withTrailingSlash u \<noteq> []"
  by (simp add: withTrailingSlash_def)

lemma dupSeparators_joinSegment:
  "dupSeparators (joinSegment u s) = dupSeparators u + dupSeparators s"
proof (cases "u = []")
  case True
  then show ?thesis by (simp add: joinSegment_def)
next
  case False
  have "dupSeparators (withTrailingSlash u @ withoutJoinLeadingSlash s) =
        dupSeparators u + dupSeparators s"
    by (cases s rule: withoutJoinLeadingSlash.cases)
       (auto simp: dupSeparators_append dupSeparators_withTrailingSlash
          last_withTrailingSlash withTrailingSlash_nonempty dupSeparators_Cons [of _ "_ # _"]
          dupSeparators_Cons [of "CHR ''/''"])
  with False show ?thesis by (simp add: joinSegment_def)
qed

lemma dupSeparators_joinURL:
  "dupSeparators (joinURL base [s]) = dupSeparators base + dupSeparators s"
  by (auto simp: joinURL_def dupSeparators_joinSegment isNonEmptyURL_def)

lemmas join_defs = joinURL_def joinSegment_def isNonEmptyURL_def withTrailingSlash_def

subsection \<open>Reading a document\<close>

lemma getKey_absent: "\<not> hasKey doc k \<Longrightarrow> getKey doc k = JUndefined"
  by (simp add: hasKey_def getKey_def map_of_eq_None_iff [THEN iffD2])

lemma hasKey_defined: "getKey doc k \<noteq> JUndefined \<Longrightarrow> hasKey doc k"
  using getKey_absent by blast

lemma hasKey_map_of: "hasKey doc k \<longleftrightarrow> map_of doc k \<noteq> None"
  by (simp add: hasKey_def map_of_eq_None_iff)

lemma map_of_filter_keys:
  "P k \<Longrightarrow> map_of (filter (\<lambda>kv. P (fst kv)) doc) k = map_of doc k"
  by (induction doc) auto

subsection \<open>Parsing the fields\<close>

lemma parse_text_items:
  "mergeResults (map (\<lambda>ix. parse ZString (p @ [Idx (fst ix)]) (snd ix))
      (enumerate n (map JString ss))) = Inr (map JString ss)"
  by (induction ss arbitrary: n) simp_all

lemma parse_tags_text:
  "parse (ZOptional (ZArray ZString)) p (JArray (map JString ss)) = Inr (JArray (map JString ss))"
  by (simp add: parse_text_items del: parse.simps(1))

lemma parse_optional_undefined: "parse (ZOptional t) p JUndefined = Inr JUndefined"
  by simp

lemma parse_optional_ok:
  assumes "\<not> hasKey doc k \<or> (\<exists>s. getKey doc k = JString s)"
  shows "parse (ZOptional ZString) p (getKey doc k) = Inr (getKey doc k)"
  using assms by (auto simp: getKey_absent)

lemma parse_tags_ok:
  assumes "\<not> hasKey doc k \<or> (\<exists>ss. getKey doc k = JArray (map JString ss))"
  shows "parse (ZOptional (ZArray ZString)) p (getKey doc k) = Inr (getKey doc k)"
  using assms
  by (auto simp: getKey_absent parse_tags_text parse_optional_undefined simp del: parse.simps)

lemma mergeResults_issue:
  "Inl es \<in> set rs \<Longrightarrow> \<exists>issues. mergeResults rs = Inl issues \<and> set es \<subseteq> set issues"
proof (induction rs)
  case Nil
  then show ?case by simp
next
  case (Cons r rs)
  show ?case
  proof (cases "r = Inl es")
    case True
    then show ?thesis by (cases "mergeResults rs") auto
  next
    case False
    with Cons.prems have "Inl es \<in> set rs" by simp
    from Cons.IH [OF this] obtain issues
      where "mergeResults rs = Inl issues" "set es \<subseteq> set issues" by blast
    then show ?thesis by (cases r) auto
  qed
qed

subsection \<open>Validating a document\<close>

lemma validate_unfold:
  "validate doc =
     (case mergeResults
        [parse (ZOptional ZString) [Key ''description''] (getKey doc ''description''),
         parse (ZOptional ZString) [Key ''image''] (getKey doc ''image''),
         parse (ZOptional (ZArray ZString)) [Key ''tags''] (getKey doc ''tags''),
         parse ZString [Key ''title''] (getKey doc ''title'')] of
        Inl es \<Rightarrow> Inl es
      | Inr vs \<Rightarrow>
          Inr (JObject
            (filter (\<lambda>kv. snd kv \<noteq> JUndefined \<or> hasKey doc (fst kv))
               (zip [''description'', ''image'', ''tags'', ''title''] vs))))"
  unfolding validate_def safeParse_def content_schema_def
  by (subst parse.simps(4)) (simp del: mergeResults.simps parse.simps cong: sum.case_cong)

lemma validate_valid:
  assumes t: "getKey doc ''title'' = JString t"
    and d: "\<not> hasKey doc ''description'' \<or> (\<exists>s. getKey doc ''description'' = JString s)"
    and i: "\<not> hasKey doc ''image'' \<or> (\<exists>s. getKey doc ''image'' = JString s)"
    and g: "\<not> hasKey doc ''tags'' \<or> (\<exists>ss. getKey doc ''tags'' = JArray (map JString ss))"
  shows "validate doc =
     Inr (JObject (filter (\<lambda>kv. hasKey doc (fst kv))
        (map (\<lambda>k. (k, getKey doc k)) (shapeKeys content_schema))))"
proof -
  let ?vs = "[getKey doc ''description'', getKey doc ''image'', getKey doc ''tags'',
              getKey doc ''title'']"
  let ?kvs = "zip [''description'', ''image'', ''tags'', ''title''] ?vs"
  have pt: "parse ZString [Key ''title''] (getKey doc ''title'') = Inr (getKey doc ''title'')"
    using t by simp
  have "validate doc =
          Inr (JObject (filter (\<lambda>kv. snd kv \<noteq> JUndefined \<or> hasKey doc (fst kv)) ?kvs))"
    by (simp only: validate_unfold parse_optional_ok [OF d] parse_optional_ok [OF i]
        parse_tags_ok [OF g] pt mergeResults.simps prod.case sum.case)
  moreover have "filter (\<lambda>kv. snd kv \<noteq> JUndefined \<or> hasKey doc (fst kv)) ?kvs =
          filter (\<lambda>kv. hasKey doc (fst kv)) ?kvs"
    by (rule filter_cong) (auto dest: hasKey_defined)
  moreover have "map (\<lambda>k. (k, getKey doc k)) (shapeKeys content_schema) = ?kvs"
    by (simp add: content_schema_def)
  ultimately show ?thesis by simp
qed

lemma validate_invalid_title:
  assumes "\<not> (\<exists>t. getKey doc ''title'' = JString t)"
  shows "\<exists>issues. validate doc = Inl issues"
proof -
  let ?rs = "[parse (ZOptional ZString) [Key ''description''] (getKey doc ''description''),
         parse (ZOptional ZString) [Key ''image''] (getKey doc ''image''),
         parse (ZOptional (ZArray ZString)) [Key ''tags''] (getKey doc ''tags''),
         parse ZString [Key ''title''] (getKey doc ''title'')]"
  obtain es where "parse ZString [Key ''title''] (getKey doc ''title'') = Inl es"
    using assms by (cases "getKey doc ''title''") simp_all
  then have "Inl es \<in> set ?rs"
    by (simp del: parse.simps)
  from mergeResults_issue [OF this] obtain issues where "mergeResults ?rs = Inl issues"
    by auto
  then show ?thesis by (simp add: validate_unfold del: mergeResults.simps parse.simps)
qed

lemma validate_cong:
  assumes "\<forall>k\<in>set (shapeKeys content_schema). map_of d1 k = map_of d2 k"
  shows "validate d1 = validate d2"
proof -
  have g: "\<And>k. k \<in> set (shapeKeys content_schema) \<Longrightarrow> getKey d1 k = getKey d2 k"
    using assms by (simp add: getKey_def)
  have h: "\<And>k. k \<in> set (shapeKeys content_schema) \<Longrightarrow> hasKey d1 k = hasKey d2 k"
    using assms by (simp add: hasKey_map_of)
  have g4: "getKey d1 ''description'' = getKey d2 ''description''"
    "getKey d1 ''image'' = getKey d2 ''image''"
    "getKey d1 ''tags'' = getKey d2 ''tags''"
    "getKey d1 ''title'' = getKey d2 ''title''"
    by (simp_all add: g content_schema_def)
  have h4: "hasKey d1 ''description'' = hasKey d2 ''description''"
    "hasKey d1 ''image'' = hasKey d2 ''image''"
    "hasKey d1 ''tags'' = hasKey d2 ''tags''"
    "hasKey d1 ''title'' = hasKey d2 ''title''"
    by (simp_all add: h content_schema_def)
  let ?rs = "mergeResults
        [parse (ZOptional ZString) [Key ''description''] (getKey d2 ''description''),
         parse (ZOptional ZString) [Key ''image''] (getKey d2 ''image''),
         parse (ZOptional (ZArray ZString)) [Key ''tags''] (getKey d2 ''tags''),
         parse ZString [Key ''title''] (getKey d2 ''title'')]"
  show ?thesis
  proof (cases ?rs)
    case (Inl es)
    then show ?thesis
      by (simp add: validate_unfold g4 del: mergeResults.simps parse.simps)
  next
    case (Inr vs)
    have "length vs = 4"
      using Inr by (auto split: sum.splits simp del: parse.simps)
    then obtain a b c e where "vs = [a, b, c, e]"
      by (auto simp: length_Suc_conv numeral_eq_Suc)
    with Inr show ?thesis
      by (simp add: validate_unfold g4 h4 del: mergeResults.simps parse.simps)
  qed
qed

section \<open>Properties\<close>

subsection \<open>Image providers\<close>

text \<open>
  C1, as the code has it. The exported \<^verbatim>\<open>getImage\<close> joins a non-empty
  \<^verbatim>\<open>baseURL\<close> option with the identifier, and the default base
  \<^verbatim>\<open>https://avatars.githubusercontent.com/u/\<close> when the option is absent or empty.
  The \<^verbatim>\<open>defineProvider\<close> variant reads no base URL from its options: it joins the
  default base with the identifier whatever the options hold.
\<close>

theorem getImage_override_or_default:
  "url (getImage src options) =
     joinURL (case baseURL options of
                None \<Rightarrow> DEFAULT_BASE_URL
              | Some b \<Rightarrow> if b = [] then DEFAULT_BASE_URL else b) [src]
   \<and> url (provider_getImage src options) = joinURL DEFAULT_BASE_URL [src]"
  by (simp add: getImage_def provider_getImage_def falsy_def DEFAULT_BASE_URL_def Let_def
      split: option.split)

text \<open>
  C1 as stated fails for the \<^verbatim>\<open>defineProvider\<close> variant: given the
  override \<^verbatim>\<open>https://cdn.example.com/imgs/\<close> it still answers with the default base.
\<close>

theorem provider_getImage_ignores_override:
  "url (provider_getImage ''octocat''
          \<lparr>modifiers = [], baseURL = Some ''https://cdn.example.com/imgs/''\<rparr>)
     = ''https://avatars.githubusercontent.com/u/octocat''
   \<and> joinURL ''https://cdn.example.com/imgs/'' [''octocat'']
     = ''https://cdn.example.com/imgs/octocat''"
  by (simp add: provider_getImage_def DEFAULT_BASE_URL_def join_defs)

text \<open>
  C4, as the code has it. For every identifier and every non-empty override, the URL of
  \<^verbatim>\<open>getImage\<close> is the join of the override and the identifier; with the override
  absent or empty it is the join of the default base and the identifier. The join adds
  no pair of adjacent separators: the result holds as many as the base and the
  identifier hold together.
\<close>

theorem getImage_url_join:
  "(baseURL options = Some b \<and> b \<noteq> [] \<longrightarrow>
      url (getImage ident options) = joinURL b [ident])
   \<and> (baseURL options = None \<or> baseURL options = Some [] \<longrightarrow>
      url (getImage ident options) =
        joinURL ''https://avatars.githubusercontent.com/u/'' [ident])
   \<and> dupSeparators (joinURL b [ident]) = dupSeparators b + dupSeparators ident"
  by (auto simp: getImage_def falsy_def Let_def dupSeparators_joinURL)

theorem getImage_url_join_witness:
  "url (getImage ''octocat''
          \<lparr>modifiers = [], baseURL = Some ''https://cdn.example.com/imgs/''\<rparr>)
     = ''https://cdn.example.com/imgs/octocat''
   \<and> url (getImage ''octocat'' \<lparr>modifiers = [], baseURL = None\<rparr>)
     = ''https://avatars.githubusercontent.com/u/octocat''
   \<and> dupSeparators ''https://cdn.example.com/imgs/octocat'' = 1"
  using
    getImage_url_join [of "\<lparr>modifiers = [], baseURL = Some ''https://cdn.example.com/imgs/''\<rparr>"
      "''https://cdn.example.com/imgs/''" "''octocat''"]
    getImage_url_join [of "\<lparr>modifiers = [], baseURL = None\<rparr>"
      "''https://cdn.example.com/imgs/''" "''octocat''"]
  by (simp add: join_defs)

text \<open>
  C4 as stated fails at the empty override: \<^verbatim>\<open>getImage\<close> answers with the
  default base, while joining the empty base with the identifier gives the identifier.
\<close>

theorem getImage_empty_override:
  "url (getImage ''octocat'' \<lparr>modifiers = [], baseURL = Some []\<rparr>)
     = ''https://avatars.githubusercontent.com/u/octocat''
   \<and> joinURL [] [''octocat''] = ''octocat''"
  by (simp add: getImage_def falsy_def Let_def join_defs)

text \<open>
  C5. For every identifier, the empty one included, and every options value, both
  providers return the format \<^verbatim>\<open>webp\<close>.
\<close>

theorem getImage_format_webp:
  "format (getImage src options) = ''webp'' \<and> format (provider_getImage src options) = ''webp''"
  by (simp add: getImage_def provider_getImage_def Let_def)

subsection \<open>Error registry\<close>

text \<open>
  C2. The registry exports exactly seven errors, with the status codes and status
  messages 404 Not found, 403 Forbidden, 401 Unauthorized, 400 Bad request,
  405 Unsupported method, 500 Internal server error and 400 No param id.
\<close>

theorem exported_errors_table:
  "map (\<lambda>(name, e). (name, statusCode e, statusMessage e)) exported_errors =
    [(''ErrNotFound'', 404, Some ''Not found''),
     (''ErrForbidden'', 403, Some ''Forbidden''),
     (''ErrUnauthorized'', 401, Some ''Unauthorized''),
     (''ErrBadRequest'', 400, Some ''Bad request''),
     (''ErrUnsupportedMethod'', 405, Some ''Unsupported method''),
     (''ErrInternalServer'', 500, Some ''Internal server error''),
     (''ErrNoParamId'', 400, Some ''No param id'')]"
  by (simp add: exported_errors_def ErrNotFound_def ErrForbidden_def ErrUnauthorized_def
      ErrBadRequest_def ErrUnsupportedMethod_def ErrInternalServer_def ErrNoParamId_def
      createError_def sanitizeStatusCode_def)

subsection \<open>Content schema\<close>

text \<open>
  C3. Every raw document without the key \<^verbatim>\<open>title\<close> fails validation, whatever its
  other fields are, and the validation error holds an issue whose path is the field
  \<^verbatim>\<open>title\<close>: a text was expected and \<^verbatim>\<open>undefined\<close> received.
\<close>

theorem validate_missing_title:
  assumes "\<not> hasKey doc ''title''"
  shows "\<exists>issues. validate doc = Inl issues
           \<and> InvalidType ZT_string ZT_undefined [Key ''title''] \<in> set issues"
proof -
  let ?rs = "[parse (ZOptional ZString) [Key ''description''] (getKey doc ''description''),
         parse (ZOptional ZString) [Key ''image''] (getKey doc ''image''),
         parse (ZOptional (ZArray ZString)) [Key ''tags''] (getKey doc ''tags''),
         parse ZString [Key ''title''] (getKey doc ''title'')]"
  have "parse ZString [Key ''title''] (getKey doc ''title'') =
          Inl [InvalidType ZT_string ZT_undefined [Key ''title'']]"
    using assms by (simp add: getKey_absent)
  then have "Inl [InvalidType ZT_string ZT_undefined [Key ''title'']] \<in> set ?rs"
    by (simp del: parse.simps)
  from mergeResults_issue [OF this] obtain issues where
    "mergeResults ?rs = Inl issues"
    "InvalidType ZT_string ZT_undefined [Key ''title''] \<in> set issues"
    by auto
  then show ?thesis by (simp add: validate_unfold del: mergeResults.simps parse.simps)
qed

theorem validate_missing_title_witness:
  "\<not> hasKey [(''description'', JString ''x'')] ''title''
   \<and> validate [(''description'', JString ''x'')]
       = Inl [InvalidType ZT_string ZT_undefined [Key ''title'']]"
  using validate_missing_title [of "[(''description'', JString ''x'')]"]
  by (simp add: hasKey_def getKey_def validate_unfold)

text \<open>
  C6. Every document whose \<^verbatim>\<open>title\<close> is a text and whose \<^verbatim>\<open>description\<close>,
  \<^verbatim>\<open>image\<close> and \<^verbatim>\<open>tags\<close> are each absent or of the right shape (a text, a
  text, a sequence of texts) passes validation. The normalized document holds the
  schema's keys that the document has, with the document's values; a field the
  document does not have is not a key of the result.
\<close>

theorem validate_accepts:
  assumes "getKey doc ''title'' = JString t"
    and "\<not> hasKey doc ''description'' \<or> (\<exists>s. getKey doc ''description'' = JString s)"
    and "\<not> hasKey doc ''image'' \<or> (\<exists>s. getKey doc ''image'' = JString s)"
    and "\<not> hasKey doc ''tags'' \<or> (\<exists>ss. getKey doc ''tags'' = JArray (map JString ss))"
  shows "\<exists>out. validate doc = Inr (JObject out)
           \<and> out = filter (\<lambda>kv. hasKey doc (fst kv))
                     (map (\<lambda>k. (k, getKey doc k)) (shapeKeys content_schema))
           \<and> (\<forall>k. hasKey out k \<longleftrightarrow> k \<in> set (shapeKeys content_schema) \<and> hasKey doc k)"
proof -
  have "\<forall>k. hasKey (filter (\<lambda>kv. hasKey doc (fst kv))
                     (map (\<lambda>k. (k, getKey doc k)) (shapeKeys content_schema))) k
          \<longleftrightarrow> k \<in> set (shapeKeys content_schema) \<and> hasKey doc k"
    by (auto simp: hasKey_def [of "filter _ _"] image_iff)
  with validate_valid [OF assms] show ?thesis by blast
qed

theorem validate_accepts_witness:
  "validate [(''title'', JString ''Hello'')] = Inr (JObject [(''title'', JString ''Hello'')])
   \<and> \<not> hasKey [(''title'', JString ''Hello'')] ''description''
   \<and> \<not> hasKey [(''title'', JString ''Hello'')] ''image''
   \<and> \<not> hasKey [(''title'', JString ''Hello'')] ''tags''"
  using validate_accepts [of "[(''title'', JString ''Hello'')]" "''Hello''"]
  by (simp add: hasKey_def getKey_def content_schema_def)

text \<open>
  C7, as the code has it. The schema asks for a \<^verbatim>\<open>title\<close> that is a text and puts
  no bound on its length: among the documents whose optional fields are absent or of
  the right shape, validation succeeds exactly for those whose \<^verbatim>\<open>title\<close> is a
  text, the empty text included.
\<close>

theorem validate_title_text_iff:
  assumes "\<not> hasKey doc ''description'' \<or> (\<exists>s. getKey doc ''description'' = JString s)"
    and "\<not> hasKey doc ''image'' \<or> (\<exists>s. getKey doc ''image'' = JString s)"
    and "\<not> hasKey doc ''tags'' \<or> (\<exists>ss. getKey doc ''tags'' = JArray (map JString ss))"
  shows "(\<exists>out. validate doc = Inr out) \<longleftrightarrow> (\<exists>t. getKey doc ''title'' = JString t)"
proof
  assume ok: "\<exists>out. validate doc = Inr out"
  show "\<exists>t. getKey doc ''title'' = JString t"
  proof (rule ccontr)
    assume "\<not> (\<exists>t. getKey doc ''title'' = JString t)"
    from validate_invalid_title [OF this] obtain issues where "validate doc = Inl issues" ..
    with ok show False by auto
  qed
next
  assume "\<exists>t. getKey doc ''title'' = JString t"
  then obtain t where "getKey doc ''title'' = JString t" ..
  from validate_valid [OF this assms] show "\<exists>out. validate doc = Inr out" by blast
qed

theorem validate_title_text_iff_witness:
  "getKey [(''title'', JString [])] ''title'' = JString []
   \<and> (\<exists>out. validate [(''title'', JString [])] = Inr out)"
  using validate_title_text_iff [of "[(''title'', JString [])]"]
  by (simp add: hasKey_def getKey_def)

text \<open>
  C7 as stated fails: the document whose \<^verbatim>\<open>title\<close> is the empty text passes
  validation.
\<close>

theorem validate_empty_title:
  "validate [(''title'', JString [])] = Inr (JObject [(''title'', JString [])])"
  by (simp add: validate_unfold hasKey_def getKey_def)

text \<open>
  C10. A document whose \<^verbatim>\<open>title\<close> is a text (its optional fields absent or of the
  right shape) passes validation whatever other keys it holds. Every key of the
  normalized document is a key of the schema, and the result is the one the document
  gives with its unknown keys removed: they are neither kept nor a reason to reject.
\<close>

theorem validate_strips_unknown:
  assumes "getKey doc ''title'' = JString t"
    and "\<not> hasKey doc ''description'' \<or> (\<exists>s. getKey doc ''description'' = JString s)"
    and "\<not> hasKey doc ''image'' \<or> (\<exists>s. getKey doc ''image'' = JString s)"
    and "\<not> hasKey doc ''tags'' \<or> (\<exists>ss. getKey doc ''tags'' = JArray (map JString ss))"
  shows "\<exists>out. validate doc = Inr (JObject out)
           \<and> set (map fst out) \<subseteq> set (shapeKeys content_schema)
           \<and> validate (filter (\<lambda>kv. fst kv \<in> set (shapeKeys content_schema)) doc)
               = Inr (JObject out)"
proof -
  let ?out = "filter (\<lambda>kv. hasKey doc (fst kv))
                (map (\<lambda>k. (k, getKey doc k)) (shapeKeys content_schema))"
  have 1: "validate doc = Inr (JObject ?out)"
    by (rule validate_valid [OF assms])
  have 2: "set (map fst ?out) \<subseteq> set (shapeKeys content_schema)"
    by auto
  have c: "validate (filter (\<lambda>kv. fst kv \<in> set (shapeKeys content_schema)) doc) = validate doc"
    by (rule validate_cong)
       (simp add: map_of_filter_keys [of "\<lambda>k. k \<in> set (shapeKeys content_schema)"])
  have 3: "validate (filter (\<lambda>kv. fst kv \<in> set (shapeKeys content_schema)) doc) =
      Inr (JObject ?out)"
    by (rule trans [OF c 1])
  from 1 2 3 show ?thesis by (intro exI [of _ ?out] conjI)
qed

theorem validate_strips_unknown_witness:
  "\<exists>out. validate [(''title'', JString ''Hello''), (''draft'', JBool True)] = Inr (JObject out)
     \<and> out = [(''title'', JString ''Hello'')]"
  using validate_strips_unknown
    [of "[(''title'', JString ''Hello''), (''draft'', JBool True)]" "''Hello''"]
  by (simp add: hasKey_def getKey_def validate_unfold)

end
